theory Spec2Isabelle
  imports Main "HOL-Library.Word"
begin

unbundle bit_operations_syntax

section \<open>The ARINC-429 socket driver (src/driver/arinc429.c)\<close>

text \<open>
  A shallow embedding of the driver. Kernel objects live in an explicit store: a pointer
  is an address (\<open>addr\<close>), the NULL pointer is \<open>None\<close> of \<open>addr option\<close>, and an
  address the store does not map is memory that is not allocated (never allocated, or
  freed). A write through NULL or an access to memory that is not allocated is a
  \<open>fault\<close> (the kernel oopses); every other C return is a value.
\<close>

subsection \<open>Constants of the headers\<close>

type_synonym addr = nat

text \<open>Linux errno values (uapi/asm-generic/errno-base.h, errno.h).\<close>

definition ENXIO :: int where "ENXIO = 6"
definition ENOMEM :: int where "ENOMEM = 12"
definition ENODEV :: int where "ENODEV = 19"
definition EFAULT :: int where "EFAULT = 14"
definition EINVAL :: int where "EINVAL = 22"
definition EMSGSIZE :: int where "EMSGSIZE = 90"
definition EPROTONOSUPPORT :: int where "EPROTONOSUPPORT = 93"
definition EAFNOSUPPORT :: int where "EAFNOSUPPORT = 97"
definition ENETDOWN :: int where "ENETDOWN = 100"
definition ENOBUFS :: int where "ENOBUFS = 105"

text \<open>linux/netdevice.h and uapi/linux/if.h.\<close>

definition NET_RX_SUCCESS :: int where "NET_RX_SUCCESS = 0"
definition NET_RX_DROP :: int where "NET_RX_DROP = 1"
definition NET_XMIT_CN :: int where "NET_XMIT_CN = 2"
definition IFF_UP :: "32 word" where "IFF_UP = 1"

text \<open>The initial network namespace \<open>init_net\<close>; a namespace is named by a number.\<close>

definition init_net :: nat where "init_net = 0"

text \<open>
  Modelled from the spec: arinc429.h is not under src/. The spec (section 6) fixes the
  word size constant at 4 bytes.
\<close>

definition ARINC429_WORD_SIZE :: nat where "ARINC429_WORD_SIZE = 4"

text \<open>
  The other constants of arinc429.h have no value in the sources at hand; the functions
  take them as a parameter, so every theorem holds for any value of them.
\<close>

record arinc429_h =
  ARPHRD_ARINC429 :: nat
  AF_ARINC429 :: nat
  ARINC429_PROTO_RAW :: int
  sizeof_sockaddr_arinc429 :: nat

subsection \<open>Data model\<close>

text \<open>
  struct net_device, the fields the driver reads or writes: \<open>dev_net(dev)\<close>,
  \<open>ifindex\<close>, \<open>type\<close>, \<open>flags\<close>, \<open>mtu\<close> (an unsigned int) and \<open>ml_priv\<close>. Fields
  that two structs name alike carry the struct's prefix here.
\<close>

record net_device =
  nd_net :: nat
  dev_ifindex :: int
  dev_type :: nat
  dev_flags :: "32 word"
  dev_mtu :: "32 word"
  ml_priv :: "addr option"

text \<open>
  The delivery functions a socket can register. The driver defines one, \<open>raw_ingress\<close>;
  \<open>other_ingress\<close> stands for any other function pointer.
\<close>

datatype ingress_fn = raw_ingress | other_ingress nat

text \<open>
  struct hlist_node: \<open>next\<close> points to the next node, \<open>pprev\<close> to the pointer that
  points to this node, which is the \<open>first\<close> field of a list head or the \<open>next\<close> field
  of the node before. \<open>LIST_POISON2\<close> is what hlist_del_rcu leaves in \<open>pprev\<close>.
\<close>

datatype hlist_slot = Head_first addr | Node_next addr | LIST_POISON2

record dev_socket_info =
  node_next :: "addr option"
  node_pprev :: "hlist_slot option"
  info_sk :: addr
  ingress_func :: ingress_fn

record dev_socket_list =
  head_first :: "addr option"
  remove_on_zero_entries :: int
  entries :: int

text \<open>
  The store: the dev_socket_list objects (kzalloc, kfree) and the dev_socket_info objects
  of dev_socket_cache (kmem_cache_alloc, kmem_cache_free).
\<close>

record kmem =
  sk_lists :: "addr \<rightharpoonup> dev_socket_list"
  sk_infos :: "addr \<rightharpoonup> dev_socket_info"

datatype fault = Null_pointer_dereference | Invalid_pointer

subsection \<open>Kernel list and allocator primitives\<close>

definition kfree :: "addr \<Rightarrow> kmem \<Rightarrow> kmem" where
  "kfree p m = m\<lparr>sk_lists := (sk_lists m)(p := None)\<rparr>"

definition kmem_cache_free :: "addr \<Rightarrow> kmem \<Rightarrow> kmem" where
  "kmem_cache_free p m = m\<lparr>sk_infos := (sk_infos m)(p := None)\<rparr>"

text \<open>
  linux/rculist.h:
  \<^verbatim>\<open>
  #define hlist_for_each_entry_rcu(pos, head, member)                     \
          for (pos = hlist_entry_safe(rcu_dereference_raw(hlist_first_rcu(head)), \
                          typeof(*(pos)), member);                        \
                  pos;                                                    \
                  pos = hlist_entry_safe(rcu_dereference_raw(hlist_next_rcu( \
                          &(pos)->member)), typeof(*(pos)), member))
  \<close>
  The loop \<open>hlist_for_each_entry_rcu(sk_info, &sk_list->head, node)\<close> with the body
  \<open>if (sk_info->ingress_func == ingress_func && sk_info->sk == sk) <leave>\<close>, as both
  dev_register_socket (lines 97-105) and dev_unregister_socket (lines 139-144) run it.
  The macro assigns its cursor \<open>pos\<close>, here the variable \<open>sk_info\<close>: the result is the
  value of \<open>sk_info\<close> when the loop is left, the first matching entry, or NULL when the
  list is exhausted. \<open>key\<close> is the pair (ingress_func, sk) the body compares with. A
  list whose \<open>next\<close> pointers form a cycle with no match never leaves the loop (\<open>None\<close>).
\<close>

partial_function (option) hlist_for_each_entry_rcu ::
  "(addr \<rightharpoonup> dev_socket_info) \<Rightarrow> ingress_fn \<times> addr \<Rightarrow> addr option
     \<Rightarrow> (fault + addr option) option"
where
  "hlist_for_each_entry_rcu infos key pos =
     (case pos of
        None \<Rightarrow> Some (Inr None)
      | Some a \<Rightarrow>
          (case infos a of
             None \<Rightarrow> Some (Inl Invalid_pointer)
           | Some e \<Rightarrow>
               if ingress_func e = fst key \<and> info_sk e = snd key then Some (Inr (Some a))
               else hlist_for_each_entry_rcu infos key (node_next e)))"

declare hlist_for_each_entry_rcu.simps [code]

text \<open>Writing a pointer value through a \<open>pprev\<close>-style pointer.\<close>

definition write_slot :: "hlist_slot option \<Rightarrow> addr option \<Rightarrow> kmem \<Rightarrow> fault + kmem" where
  "write_slot slot v m =
     (case slot of
        None \<Rightarrow> Inl Null_pointer_dereference
      | Some LIST_POISON2 \<Rightarrow> Inl Invalid_pointer
      | Some (Head_first h) \<Rightarrow>
          (case sk_lists m h of
             None \<Rightarrow> Inl Invalid_pointer
           | Some l \<Rightarrow> Inr (m\<lparr>sk_lists := (sk_lists m)(h \<mapsto> l\<lparr>head_first := v\<rparr>)\<rparr>))
      | Some (Node_next p) \<Rightarrow>
          (case sk_infos m p of
             None \<Rightarrow> Inl Invalid_pointer
           | Some e \<Rightarrow> Inr (m\<lparr>sk_infos := (sk_infos m)(p \<mapsto> e\<lparr>node_next := v\<rparr>)\<rparr>)))"

definition set_pprev :: "addr \<Rightarrow> hlist_slot \<Rightarrow> kmem \<Rightarrow> fault + kmem" where
  "set_pprev n slot m =
     (case sk_infos m n of
        None \<Rightarrow> Inl Invalid_pointer
      | Some e \<Rightarrow> Inr (m\<lparr>sk_infos := (sk_infos m)(n \<mapsto> e\<lparr>node_pprev := Some slot\<rparr>)\<rparr>))"

text \<open>
  linux/rculist.h:
  \<^verbatim>\<open>
  static inline void hlist_add_head_rcu(struct hlist_node *n, struct hlist_head *h)
  {
          struct hlist_node *first = h->first;
          n->next = first;
          n->pprev = &h->first;
          rcu_assign_pointer(hlist_first_rcu(h), n);
          if (first)
                  first->pprev = &n->next;
  }
  \<close>
  \<open>node\<close> is the first member of struct dev_socket_info, so \<open>&sk_info->node\<close> is NULL
  when \<open>sk_info\<close> is.
\<close>

definition hlist_add_head_rcu :: "addr option \<Rightarrow> addr \<Rightarrow> kmem \<Rightarrow> fault + kmem" where
  "hlist_add_head_rcu n h m =
     (case sk_lists m h of
        None \<Rightarrow> Inl Invalid_pointer
      | Some l \<Rightarrow>
          (case n of
             None \<Rightarrow> Inl Null_pointer_dereference
           | Some na \<Rightarrow>
               (case sk_infos m na of
                  None \<Rightarrow> Inl Invalid_pointer
                | Some e \<Rightarrow>
                    (let first = head_first l;
                         m1 = m\<lparr>sk_infos := (sk_infos m)(na \<mapsto>
                                 e\<lparr>node_next := first, node_pprev := Some (Head_first h)\<rparr>)\<rparr>;
                         m2 = m1\<lparr>sk_lists := (sk_lists m1)(h \<mapsto> l\<lparr>head_first := Some na\<rparr>)\<rparr>
                     in case first of
                          None \<Rightarrow> Inr m2
                        | Some fa \<Rightarrow> set_pprev fa (Node_next na) m2))))"

text \<open>
  linux/rculist.h and linux/list.h:
  \<^verbatim>\<open>
  static inline void __hlist_del(struct hlist_node *n)
  {
          struct hlist_node *next = n->next;
          struct hlist_node **pprev = n->pprev;
          WRITE_ONCE(*pprev, next);
          if (next)
                  next->pprev = pprev;
  }
  static inline void hlist_del_rcu(struct hlist_node *n)
  {
          __hlist_del(n);
          n->pprev = LIST_POISON2;
  }
  \<close>
\<close>

definition hlist_del_rcu :: "addr \<Rightarrow> kmem \<Rightarrow> fault + kmem" where
  "hlist_del_rcu n m =
     (case sk_infos m n of
        None \<Rightarrow> Inl Invalid_pointer
      | Some e \<Rightarrow>
          (case write_slot (node_pprev e) (node_next e) m of
             Inl flt \<Rightarrow> Inl flt
           | Inr m1 \<Rightarrow>
               (case node_pprev e of
                  None \<Rightarrow> Inl Null_pointer_dereference
                | Some pprev \<Rightarrow>
                    (case (case node_next e of
                             None \<Rightarrow> Inr m1
                           | Some nx \<Rightarrow> set_pprev nx pprev m1) of
                       Inl flt \<Rightarrow> Inl flt
                     | Inr m2 \<Rightarrow> set_pprev n LIST_POISON2 m2))))"

subsection \<open>Socket lists (Device Socket Registry)\<close>

text \<open>
  dev_register_socket (lines 64-113); \<open>dev\<close> is not NULL. \<open>alloc\<close> is what
  kmem_cache_alloc returns at line 84: NULL, or the address of the new object. The code
  does not initialise the new object's list node; the model gives it NULL pointers (no
  path reads them). The new object's address is held in the variable \<open>sk_info\<close> only
  until the loop at line 97 starts, which uses the same variable as its cursor; lines 101
  and 107 read \<open>sk_info\<close> as the loop left it.
\<close>

definition dev_register_socket ::
  "arinc429_h \<Rightarrow> addr option \<Rightarrow> net_device \<Rightarrow> ingress_fn \<Rightarrow> addr \<Rightarrow> kmem
     \<Rightarrow> (fault + int \<times> kmem) option"
where
  "dev_register_socket h alloc dev f s m =
     (if dev_type dev \<noteq> ARPHRD_ARINC429 h then Some (Inr (- ENODEV, m))
      else case ml_priv dev of
        None \<Rightarrow> Some (Inr (- ENODEV, m))
      | Some lp \<Rightarrow>
          (case alloc of
             None \<Rightarrow> Some (Inr (- ENOMEM, m))
           | Some new \<Rightarrow>
               (let m1 = m\<lparr>sk_infos := (sk_infos m)(new \<mapsto>
                            \<lparr>node_next = None, node_pprev = None,
                             info_sk = s, ingress_func = f\<rparr>)\<rparr>
                in case sk_lists m1 lp of
                     None \<Rightarrow> Some (Inl Invalid_pointer)
                   | Some sk_list \<Rightarrow>
                       (case hlist_for_each_entry_rcu (sk_infos m1) (f, s) (head_first sk_list) of
                          None \<Rightarrow> None
                        | Some (Inl flt) \<Rightarrow> Some (Inl flt)
                        | Some (Inr sk_info) \<Rightarrow>
                            (case sk_info of
                               Some found \<Rightarrow> Some (Inr (0, kmem_cache_free found m1))
                             | None \<Rightarrow>
                                 (case hlist_add_head_rcu sk_info lp m1 of
                                    Inl flt \<Rightarrow> Some (Inl flt)
                                  | Inr m2 \<Rightarrow>
                                      (case sk_lists m2 lp of
                                         None \<Rightarrow> Some (Inl Invalid_pointer)
                                       | Some l2 \<Rightarrow>
                                           Some (Inr (0, m2\<lparr>sk_lists := (sk_lists m2)(lp \<mapsto>
                                             l2\<lparr>entries := entries l2 + 1\<rparr>)\<rparr>)))))))))"

text \<open>
  dev_unregister_socket (lines 115-166); it returns nothing, the model returns the device
  (whose \<open>ml_priv\<close> it may clear) and the store.
\<close>

definition dev_unregister_socket ::
  "arinc429_h \<Rightarrow> net_device \<Rightarrow> ingress_fn \<Rightarrow> addr \<Rightarrow> kmem
     \<Rightarrow> (fault + net_device \<times> kmem) option"
where
  "dev_unregister_socket h dev f s m =
     (if dev_type dev \<noteq> ARPHRD_ARINC429 h then Some (Inr (dev, m))
      else case ml_priv dev of
        None \<Rightarrow> Some (Inr (dev, m))
      | Some lp \<Rightarrow>
          (case sk_lists m lp of
             None \<Rightarrow> Some (Inl Invalid_pointer)
           | Some sk_list \<Rightarrow>
               (case hlist_for_each_entry_rcu (sk_infos m) (f, s) (head_first sk_list) of
                  None \<Rightarrow> None
                | Some (Inl flt) \<Rightarrow> Some (Inl flt)
                | Some (Inr sk_info) \<Rightarrow>
                    (case sk_info of
                       None \<Rightarrow> Some (Inr (dev, m))
                     | Some found \<Rightarrow>
                         (case hlist_del_rcu found m of
                            Inl flt \<Rightarrow> Some (Inl flt)
                          | Inr m1 \<Rightarrow>
                              (case sk_lists m1 lp of
                                 None \<Rightarrow> Some (Inl Invalid_pointer)
                               | Some l1 \<Rightarrow>
                                   (let l2 = l1\<lparr>entries := entries l1 - 1\<rparr>;
                                        m2 = m1\<lparr>sk_lists := (sk_lists m1)(lp \<mapsto> l2)\<rparr>
                                    in if remove_on_zero_entries l2 \<noteq> 0 \<and> entries l2 \<le> 0
                                       then Some (Inr (dev\<lparr>ml_priv := None\<rparr>,
                                                       kmem_cache_free found (kfree lp m2)))
                                       else Some (Inr (dev, kmem_cache_free found m2)))))))))"

text \<open>dev_remove_socket_list (lines 168-188), the device-disappearing handler.\<close>

definition dev_remove_socket_list :: "net_device \<Rightarrow> kmem \<Rightarrow> fault + net_device \<times> kmem" where
  "dev_remove_socket_list dev m =
     (case ml_priv dev of
        None \<Rightarrow> Inr (dev, m)
      | Some lp \<Rightarrow>
          (case sk_lists m lp of
             None \<Rightarrow> Inl Invalid_pointer
           | Some sk_list \<Rightarrow>
               (let l1 = sk_list\<lparr>remove_on_zero_entries := 1\<rparr>;
                    m1 = m\<lparr>sk_lists := (sk_lists m)(lp \<mapsto> l1)\<rparr>;
                    m2 = (if entries l1 = 0 then kfree lp m1 else m1)
                in Inr (dev\<lparr>ml_priv := None\<rparr>, m2))))"

text \<open>
  dev_add_socket_list (lines 190-211); \<open>alloc\<close> is what kzalloc returns, and kzalloc
  zeroes the object.
\<close>

definition dev_add_socket_list :: "addr option \<Rightarrow> net_device \<Rightarrow> kmem \<Rightarrow> int \<times> net_device \<times> kmem" where
  "dev_add_socket_list alloc dev m =
     (case ml_priv dev of
        Some lp \<Rightarrow> (- EINVAL, dev, m)
      | None \<Rightarrow>
          (case alloc of
             None \<Rightarrow> (- ENOMEM, dev, m)
           | Some new \<Rightarrow>
               (0, dev\<lparr>ml_priv := Some new\<rparr>,
                m\<lparr>sk_lists := (sk_lists m)(new \<mapsto>
                     \<lparr>head_first = None, remove_on_zero_entries = 0, entries = 0\<rparr>)\<rparr>)))"

subsection \<open>Sockets and devices of the host\<close>

text \<open>
  struct sk_buff: the data length, and the \<open>ifindex\<close> of struct arinc429_skb_priv at
  the head of the buffer.
\<close>

record sk_buff =
  skb_len :: "32 word"
  skb_priv_ifindex :: int

text \<open>
  struct proto_raw_sock (lines 215-219) with the fields of its struct sock the driver
  uses: the namespace (sock_net), \<open>sk_err\<close>, the SOCK_DEAD flag, the receive queue, and
  the number of times \<open>sk_error_report\<close> has been invoked on it.
\<close>

record proto_raw_sock =
  sk_net :: nat
  sk_err :: int
  sk_dead :: bool
  sk_error_reports :: nat
  sk_receive_queue :: "sk_buff list"
  psk_ifindex :: int
  bound :: int

record kstate =
  devs :: "net_device list"
  mem :: kmem
  socks :: "addr \<rightharpoonup> proto_raw_sock"

text \<open>
  dev_get_by_index (net/core/dev.c): the device of the namespace with that interface
  index, or NULL.
\<close>

definition dev_get_by_index :: "kstate \<Rightarrow> nat \<Rightarrow> int \<Rightarrow> net_device option" where
  "dev_get_by_index st net idx =
     find (\<lambda>d. nd_net d = net \<and> dev_ifindex d = idx) (devs st)"

text \<open>struct sockaddr_arinc429: a family tag and a device index.\<close>

record sockaddr_arinc429 =
  arinc429_family :: nat
  arinc429_ifindex :: int

subsection \<open>Raw protocol\<close>

text \<open>raw_ingress (lines 221-224) logs a line and touches neither the buffer nor the socket.\<close>

definition raw_ingress_body :: "sk_buff \<Rightarrow> addr \<Rightarrow> kstate \<Rightarrow> kstate" where
  "raw_ingress_body skb s st = st"

text \<open>
  proto_raw_bind (lines 226-297). \<open>s\<close> is \<open>sock->sk\<close>, \<open>alloc\<close> what kmem_cache_alloc
  returns inside dev_register_socket. \<open>len\<close> is an int compared with a size_t.
\<close>

definition proto_raw_bind ::
  "arinc429_h \<Rightarrow> addr option \<Rightarrow> addr \<Rightarrow> sockaddr_arinc429 \<Rightarrow> int \<Rightarrow> kstate
     \<Rightarrow> (fault + int \<times> kstate) option"
where
  "proto_raw_bind h alloc s addr len st =
     (if len \<noteq> int (sizeof_sockaddr_arinc429 h) then Some (Inr (- EINVAL, st))
      else if arinc429_ifindex addr = 0 then Some (Inr (- EINVAL, st))
      else
        (case socks st s of
           None \<Rightarrow> Some (Inl Invalid_pointer)
         | Some psk \<Rightarrow>
             (if bound psk \<noteq> 0 \<and> arinc429_ifindex addr = psk_ifindex psk
              then Some (Inr (0, st))
              else
                (case dev_get_by_index st (sk_net psk) (arinc429_ifindex addr) of
                   None \<Rightarrow> Some (Inr (- ENODEV, st))
                 | Some dev \<Rightarrow>
                     (if dev_type dev \<noteq> ARPHRD_ARINC429 h then Some (Inr (- ENODEV, st))
                      else
                        (case dev_register_socket h alloc dev raw_ingress s (mem st) of
                           None \<Rightarrow> None
                         | Some (Inl flt) \<Rightarrow> Some (Inl flt)
                         | Some (Inr (err, m1)) \<Rightarrow>
                             (if err \<noteq> 0 then Some (Inr (- ENODEV, st\<lparr>mem := m1\<rparr>))
                              else
                                (let psk1 = psk\<lparr>psk_ifindex := dev_ifindex dev, bound := 1\<rparr>;
                                     psk2 =
                                       (if dev_flags dev AND IFF_UP = 0
                                        then psk1\<lparr>sk_err := ENETDOWN,
                                               sk_error_reports :=
                                                 (if sk_dead psk1 then sk_error_reports psk1
                                                  else sk_error_reports psk1 + 1)\<rparr>
                                        else psk1)
                                 in Some (Inr (0, st\<lparr>mem := m1,
                                                       socks := (socks st)(s \<mapsto> psk2)\<rparr>))))))))))"

text \<open>
  struct msghdr: the optional destination address, its length, the flags, and the number
  of payload bytes its iterator holds (\<open>msg->msg_iter.count\<close>, a size_t). The socket
  layer calls \<open>sendmsg\<close> with \<open>size = msg_data_left(msg)\<close>, which is that count
  (net/socket.c, sock_sendmsg).
\<close>

record msghdr =
  msg_name :: "sockaddr_arinc429 option"
  msg_namelen :: int
  msg_flags :: "32 word"
  msg_iter_count :: "64 word"

text \<open>
  What the host answers during one proto_raw_sendmsg: the error of sock_alloc_send_skb
  (\<open>None\<close> when it returns a buffer), the result of memcpy_from_msg when the iterator
  holds the bytes asked for (0, or -EFAULT when the user's memory cannot be read), the
  result of dev_queue_xmit.
\<close>

record send_env =
  sock_alloc_send_skb_err :: "int option"
  memcpy_from_msg_ret :: int
  dev_queue_xmit_ret :: int

text \<open>The calls proto_raw_sendmsg makes to the device and transport layers, in order.\<close>

datatype host_call =
    Call_dev_get_by_index nat int
  | Call_dev_put int
  | Call_sock_alloc_send_skb "64 word"
  | Call_memcpy_from_msg "64 word"
  | Call_kfree_skb
  | Call_dev_queue_xmit sk_buff

text \<open>
  linux/skbuff.h and lib/iov_iter.c:
  \<^verbatim>\<open>
  static inline int memcpy_from_msg(void *data, struct msghdr *msg, int len)
  {
          return copy_from_iter_full(data, len, &msg->msg_iter) ? 0 : -EFAULT;
  }
  bool _copy_from_iter_full(void *addr, size_t bytes, struct iov_iter *i)
  {
          ...
          if (unlikely(i->count < bytes))
                  return false;
          ...
  }
  \<close>
  \<open>len\<close> is an int and \<open>bytes\<close> a size_t: a negative \<open>len\<close> is converted to a size_t
  of at least 2^63.
\<close>

definition memcpy_from_msg :: "send_env \<Rightarrow> msghdr \<Rightarrow> int \<Rightarrow> int" where
  "memcpy_from_msg env msg len =
     (if unat (msg_iter_count msg) < unat (word_of_int len :: 64 word) then - EFAULT
      else memcpy_from_msg_ret env)"

text \<open>Whether a call is the hand-over of a buffer to the device's transmit path.\<close>

fun is_dev_queue_xmit :: "host_call \<Rightarrow> bool" where
  "is_dev_queue_xmit (Call_dev_queue_xmit skb) = True"
| "is_dev_queue_xmit c = False"

text \<open>sizeof(struct arinc429_skb_priv) (lines 39-42): one int and an empty array.\<close>

definition sizeof_arinc429_skb_priv :: "64 word" where
  "sizeof_arinc429_skb_priv = 4"

text \<open>linux/netdevice.h: \<open>#define net_xmit_errno(e) ((e) != NET_XMIT_CN ? -ENOBUFS : 0)\<close>.\<close>

definition net_xmit_errno :: "int \<Rightarrow> int" where
  "net_xmit_errno e = (if e \<noteq> NET_XMIT_CN then - ENOBUFS else 0)"

text \<open>
  Lines 384-401: the interface index from the message, otherwise from the socket.
  \<open>msg_namelen\<close> is an int compared with a size_t, so a negative length is not smaller.
\<close>

definition sendmsg_ifindex :: "arinc429_h \<Rightarrow> proto_raw_sock \<Rightarrow> msghdr \<Rightarrow> int + int" where
  "sendmsg_ifindex h psk msg =
     (case msg_name msg of
        Some addr \<Rightarrow>
          if 0 \<le> msg_namelen msg \<and> msg_namelen msg < int (sizeof_sockaddr_arinc429 h)
          then Inl (- EINVAL)
          else if arinc429_family addr \<noteq> AF_ARINC429 h then Inl (- EINVAL)
          else Inr (arinc429_ifindex addr)
      | None \<Rightarrow> Inr (psk_ifindex psk))"

text \<open>
  proto_raw_sendmsg (lines 366-478). \<open>size'\<close> is the size_t \<open>size\<close>, the device's mtu an unsigned
  int, the result an int: \<open>return size\<close> converts the size_t to int, and so does the
  third argument of memcpy_from_msg at line 443. The function changes neither the socket
  nor the socket lists; its effects are its calls to the host.
\<close>

definition proto_raw_sendmsg ::
  "arinc429_h \<Rightarrow> send_env \<Rightarrow> kstate \<Rightarrow> proto_raw_sock \<Rightarrow> msghdr \<Rightarrow> 64 word
     \<Rightarrow> int \<times> host_call list"
where
  "proto_raw_sendmsg h env st psk msg size' =
     (if unat size' mod ARINC429_WORD_SIZE \<noteq> 0 then (- EINVAL, [])
      else
        (case sendmsg_ifindex h psk msg of
           Inl e \<Rightarrow> (e, [])
         | Inr ifindex \<Rightarrow>
             (let get = Call_dev_get_by_index (sk_net psk) ifindex in
              case dev_get_by_index st (sk_net psk) ifindex of
                None \<Rightarrow> (- ENXIO, [get])
              | Some dev \<Rightarrow>
                  (let put = Call_dev_put (dev_ifindex dev);
                       alloc = Call_sock_alloc_send_skb (size' + sizeof_arinc429_skb_priv);
                       copy = Call_memcpy_from_msg size';
                       skb = \<lparr>skb_len = ucast size', skb_priv_ifindex = dev_ifindex dev\<rparr>
                   in if dev_type dev \<noteq> ARPHRD_ARINC429 h then (- ENODEV, [get, put])
                      else if unat (dev_mtu dev) < unat size' then (- EMSGSIZE, [get, put])
                      else if dev_flags dev AND IFF_UP = 0 then (- ENETDOWN, [get, put])
                      else
                        (case sock_alloc_send_skb_err env of
                           Some err \<Rightarrow> (err, [get, alloc, put])
                         | None \<Rightarrow>
                             (if memcpy_from_msg env msg (sint (ucast size' :: 32 word)) < 0
                              then (memcpy_from_msg env msg (sint (ucast size' :: 32 word)),
                                    [get, alloc, copy, Call_kfree_skb, put])
                              else
                                (let err0 = dev_queue_xmit_ret env;
                                     err = (if 0 < err0 then net_xmit_errno err0 else err0);
                                     calls = [get, alloc, copy, Call_dev_queue_xmit skb, put]
                                 in if err \<noteq> 0 then (err, calls)
                                    else (sint (ucast size' :: 32 word), calls))))))))"

subsection \<open>Socket creator\<close>

datatype socket_state = SS_FREE | SS_UNCONNECTED | SS_CONNECTING | SS_CONNECTED | SS_DISCONNECTING

datatype proto_ops = proto_raw_ops

record socket =
  sock_state :: socket_state
  sock_ops :: "proto_ops option"
  sock_sk :: "addr option"

text \<open>
  arinc429_sock_create (lines 562-616). \<open>alloc\<close> is what sk_alloc returns; sk_alloc zeroes
  the object and sets its namespace. \<open>proto_raw\<close> has no \<open>init\<close>, so lines 604-613 do
  nothing.
\<close>

definition arinc429_sock_create ::
  "arinc429_h \<Rightarrow> addr option \<Rightarrow> nat \<Rightarrow> socket \<Rightarrow> int \<Rightarrow> kstate \<Rightarrow> int \<times> socket \<times> kstate"
where
  "arinc429_sock_create h alloc net sock protocol st =
     (let sock1 = sock\<lparr>sock_state := SS_UNCONNECTED\<rparr> in
      if net \<noteq> init_net then (- EAFNOSUPPORT, sock1, st)
      else if protocol = ARINC429_PROTO_RAW h then
        (let sock2 = sock1\<lparr>sock_ops := Some proto_raw_ops\<rparr> in
         case alloc of
           None \<Rightarrow> (- ENOMEM, sock2, st)
         | Some new \<Rightarrow>
             (0, sock2\<lparr>sock_sk := Some new\<rparr>,
              st\<lparr>socks := (socks st)(new \<mapsto>
                    \<lparr>sk_net = net, sk_err = 0, sk_dead = False, sk_error_reports = 0,
                     sk_receive_queue = [], psk_ifindex = 0, bound = 0\<rparr>)\<rparr>))
      else (- EPROTONOSUPPORT, sock1, st))"

subsection \<open>Ingress packet processing\<close>

text \<open>What happens to the buffer: kfree_skb (dropped) or consume_skb.\<close>

datatype skb_fate = Skb_kfree | Skb_consume

text \<open>
  arinc429_packet_ingress (lines 659-693). The condition of WARN_ONCE is
  \<open>dev->type != ARPHRD_ARINC429 || skb->len % ARINC429_WORD_SIZE\<close>, the second operand
  evaluated only when the first is false. Between rcu_read_lock and rcu_read_unlock
  (lines 684-687) the function does nothing. The state is returned as it was passed.
\<close>

definition arinc429_packet_ingress ::
  "arinc429_h \<Rightarrow> sk_buff \<Rightarrow> net_device \<Rightarrow> kstate \<Rightarrow> int \<times> skb_fate \<times> kstate"
where
  "arinc429_packet_ingress h skb dev st =
     (if nd_net dev \<noteq> init_net then (NET_RX_DROP, Skb_kfree, st)
      else
        (let err = (if dev_type dev \<noteq> ARPHRD_ARINC429 h then True
                    else unat (skb_len skb) mod ARINC429_WORD_SIZE \<noteq> 0)
         in if err then (NET_RX_DROP, Skb_kfree, st)
            else (NET_RX_SUCCESS, Skb_consume, st)))"

subsection \<open>Example states\<close>

text \<open>
  Values for the constants of arinc429.h (any values do), a namespace-local device D1 of
  the ARINC-429 type that is up, a second such device D2, and stores in which the socket
  list of D1 (at address 100) holds no entry, one entry (socket 1) and two entries
  (sockets 1 and 2).
\<close>

definition ex_h :: arinc429_h where
  "ex_h = \<lparr>ARPHRD_ARINC429 = 1065, AF_ARINC429 = 45, ARINC429_PROTO_RAW = 1,
           sizeof_sockaddr_arinc429 = 8\<rparr>"

definition ex_D1 :: net_device where
  "ex_D1 = \<lparr>nd_net = 0, dev_ifindex = 1, dev_type = 1065, dev_flags = 1, dev_mtu = 32,
            ml_priv = Some 100\<rparr>"

definition ex_D2 :: net_device where
  "ex_D2 = \<lparr>nd_net = 0, dev_ifindex = 2, dev_type = 1065, dev_flags = 1, dev_mtu = 32,
            ml_priv = Some 101\<rparr>"

definition ex_entry :: "addr option \<Rightarrow> hlist_slot \<Rightarrow> addr \<Rightarrow> dev_socket_info" where
  "ex_entry nx pp s = \<lparr>node_next = nx, node_pprev = Some pp, info_sk = s,
                        ingress_func = raw_ingress\<rparr>"

definition ex_mem0 :: kmem where
  "ex_mem0 = \<lparr>sk_lists = [100 \<mapsto> \<lparr>head_first = None, remove_on_zero_entries = 0, entries = 0\<rparr>],
              sk_infos = Map.empty\<rparr>"

definition ex_mem1 :: kmem where
  "ex_mem1 = \<lparr>sk_lists = [100 \<mapsto> \<lparr>head_first = Some 200, remove_on_zero_entries = 0, entries = 1\<rparr>],
              sk_infos = [200 \<mapsto> ex_entry None (Head_first 100) 1]\<rparr>"

definition ex_mem2 :: kmem where
  "ex_mem2 = \<lparr>sk_lists = [100 \<mapsto> \<lparr>head_first = Some 201, remove_on_zero_entries = 0, entries = 2\<rparr>],
              sk_infos = [200 \<mapsto> ex_entry None (Node_next 201) 1,
                          201 \<mapsto> ex_entry (Some 200) (Head_first 100) 2]\<rparr>"

definition ex_psk :: "int \<Rightarrow> int \<Rightarrow> proto_raw_sock" where
  "ex_psk idx b = \<lparr>sk_net = 0, sk_err = 0, sk_dead = False, sk_error_reports = 0,
                   sk_receive_queue = [], psk_ifindex = idx, bound = b\<rparr>"

definition ex_st2 :: kstate where
  "ex_st2 = \<lparr>devs = [ex_D1], mem = ex_mem2, socks = [1 \<mapsto> ex_psk 1 1, 2 \<mapsto> ex_psk 1 1]\<rparr>"

text \<open>
  Socket 1 is bound to D1; the socket list of D2 (at address 101) holds an entry for
  socket 1 as well.
\<close>

definition ex_mem12 :: kmem where
  "ex_mem12 = \<lparr>sk_lists = [100 \<mapsto> \<lparr>head_first = Some 200, remove_on_zero_entries = 0, entries = 1\<rparr>,
                            101 \<mapsto> \<lparr>head_first = Some 210, remove_on_zero_entries = 0, entries = 1\<rparr>],
               sk_infos = [200 \<mapsto> ex_entry None (Head_first 100) 1,
                           210 \<mapsto> ex_entry None (Head_first 101) 1]\<rparr>"

definition ex_st12 :: kstate where
  "ex_st12 = \<lparr>devs = [ex_D1, ex_D2], mem = ex_mem12, socks = [1 \<mapsto> ex_psk 1 1]\<rparr>"

text \<open>
  A host that hands out a buffer, copies the payload and accepts the transmit; a message
  with no destination address and no payload.
\<close>

definition ex_env :: send_env where
  "ex_env = \<lparr>sock_alloc_send_skb_err = None, memcpy_from_msg_ret = 0, dev_queue_xmit_ret = 0\<rparr>"

definition ex_msg :: msghdr where
  "ex_msg = \<lparr>msg_name = None, msg_namelen = 0, msg_flags = 0, msg_iter_count = 0\<rparr>"


definition ex_addr2 :: sockaddr_arinc429 where
  "ex_addr2 = \<lparr>arinc429_family = 45, arinc429_ifindex = 2\<rparr>"

text \<open>The store \<open>ex_mem12\<close> after socket 1 has been registered once more with D2.\<close>

definition ex_mem12' :: kmem where
  "ex_mem12' = \<lparr>sk_lists = sk_lists ex_mem12,
                sk_infos = [200 \<mapsto> ex_entry None (Head_first 100) 1,
                            211 \<mapsto> \<lparr>node_next = None, node_pprev = None, info_sk = 1,
                                     ingress_func = raw_ingress\<rparr>]\<rparr>"

section \<open>Properties\<close>

subsection \<open>The list traversal\<close>

lemma hlist_for_each_entry_rcu_NULL:
  "hlist_for_each_entry_rcu infos key None = Some (Inr None)"
  by (simp add: hlist_for_each_entry_rcu.simps)

lemma hlist_for_each_entry_rcu_node:
  "hlist_for_each_entry_rcu infos key (Some a) =
     (case infos a of
        None \<Rightarrow> Some (Inl Invalid_pointer)
      | Some e \<Rightarrow>
          if ingress_func e = fst key \<and> info_sk e = snd key then Some (Inr (Some a))
          else hlist_for_each_entry_rcu infos key (node_next e))"
  by (subst hlist_for_each_entry_rcu.simps) simp

subsection \<open>Registration never inserts\<close>

text \<open>
  When the loop of dev_register_socket finds no matching entry it leaves \<open>sk_info\<close>
  NULL, and hlist_add_head_rcu writes through it.
\<close>

lemma dev_register_socket_no_match:
  assumes "dev_type dev = ARPHRD_ARINC429 h"
    and "ml_priv dev = Some lp"
    and "sk_lists m lp = Some l"
    and "hlist_for_each_entry_rcu
           ((sk_infos m)(new \<mapsto> \<lparr>node_next = None, node_pprev = None, info_sk = s,
                                  ingress_func = f\<rparr>)) (f, s) (head_first l) = Some (Inr None)"
  shows "dev_register_socket h (Some new) dev f s m = Some (Inl Null_pointer_dereference)"
  using assms by (simp add: dev_register_socket_def hlist_add_head_rcu_def)

text \<open>
  Whatever dev_register_socket returns, the socket lists (their heads and entry counts)
  are as they were: no path of the function links an entry or counts one.
\<close>

lemma dev_register_socket_lists_unchanged:
  assumes "dev_register_socket h alloc dev f s m = Some (Inr (r, m'))"
  shows "sk_lists m' = sk_lists m"
  using assms
  by (auto simp: dev_register_socket_def hlist_add_head_rcu_def kmem_cache_free_def Let_def
           split: if_splits option.splits sum.splits)

subsection \<open>Device lookup\<close>

lemma dev_get_by_index_ifindex:
  "dev_get_by_index st net idx = Some dev \<Longrightarrow> dev_ifindex dev = idx \<and> nd_net dev = net"
  by (auto simp: dev_get_by_index_def find_Some_iff)

subsection \<open>Conversion of a small size_t to int\<close>

lemma sint_ucast_small:
  assumes "unat (w :: 64 word) < 2 ^ 31"
  shows "sint (ucast w :: 32 word) = int (unat w)"
proof -
  have "sint (ucast w :: 32 word) = signed_take_bit (LENGTH(32) - 1) (uint w)"
    by (simp only: ucast_eq sint_sbintrunc')
  also have "LENGTH(32) - 1 = (31 :: nat)"
    by simp
  also have "signed_take_bit 31 (uint w) = uint w"
  proof (rule signed_take_bit_int_eq_self)
    show "- (2 ^ 31) \<le> uint w"
      by (rule order_trans [of _ 0]) simp_all
    have "int (unat w) < int (2 ^ 31)"
      using assms by (simp only: of_nat_less_iff)
    then show "uint w < 2 ^ 31"
      by simp
  qed
  finally show ?thesis
    by (simp only: uint_nat)
qed

subsection \<open>Ingress\<close>

text \<open>
  C1 (fails on the code). Sockets 1 and 2 are both registered with D1 (the traversal of
  D1's list finds an entry for each), D1 is in the initial namespace and of the ARINC-429
  type, and a 12-byte packet arrives from D1. arinc429_packet_ingress consumes the packet
  and reports success, and the state is as before: the receive queues of both sockets
  stay empty. The packet is delivered to no socket, not to the two registered ones.
\<close>

theorem ingress_valid_packet_delivered_to_no_socket:
  "arinc429_packet_ingress ex_h \<lparr>skb_len = 12, skb_priv_ifindex = 1\<rparr> ex_D1 ex_st2
     = (NET_RX_SUCCESS, Skb_consume, ex_st2)
   \<and> hlist_for_each_entry_rcu (sk_infos (mem ex_st2)) (raw_ingress, 1) (Some 201)
       = Some (Inr (Some 200))
   \<and> hlist_for_each_entry_rcu (sk_infos (mem ex_st2)) (raw_ingress, 2) (Some 201)
       = Some (Inr (Some 201))
   \<and> map_option sk_receive_queue (socks ex_st2 1) = Some []
   \<and> map_option sk_receive_queue (socks ex_st2 2) = Some []"
  by (simp add: arinc429_packet_ingress_def ex_h_def ex_D1_def ex_st2_def ex_mem2_def
        ex_entry_def ex_psk_def init_net_def ARINC429_WORD_SIZE_def
        hlist_for_each_entry_rcu_node)

text \<open>
  C5. An inbound packet whose length is not a whole multiple of 4 bytes is dropped,
  whatever the device and whatever sockets are registered: the function frees the buffer,
  returns NET_RX_DROP (a status, not an error or a fault) and leaves the state, and so
  every socket's receive queue, unchanged.
\<close>

theorem ingress_drops_unaligned_packet:
  assumes "unat (skb_len skb) mod 4 \<noteq> 0"
  shows "arinc429_packet_ingress h skb dev st = (NET_RX_DROP, Skb_kfree, st)"
  using assms by (simp add: arinc429_packet_ingress_def ARINC429_WORD_SIZE_def)

theorem ingress_drops_unaligned_packet_witness:
  "unat (skb_len \<lparr>skb_len = 6, skb_priv_ifindex = 1\<rparr>) mod 4 \<noteq> 0
   \<and> arinc429_packet_ingress ex_h \<lparr>skb_len = 6, skb_priv_ifindex = 1\<rparr> ex_D1 ex_st2
       = (NET_RX_DROP, Skb_kfree, ex_st2)"
  using ingress_drops_unaligned_packet
          [of "\<lparr>skb_len = 6, skb_priv_ifindex = 1\<rparr>" ex_h ex_D1 ex_st2]
  by simp

subsection \<open>Socket lists\<close>

text \<open>
  C2 (fails on the code). D1's socket list (at address 100) holds one entry, for socket 1,
  when dev_remove_socket_list runs. The handler sets remove_on_zero_entries and does not
  free the list, but it clears \<open>ml_priv\<close> all the same (line 181 is outside the \<open>if\<close> of
  line 179). The later dev_unregister_socket of that last entry finds no list through the
  device and returns at line 129 with the store as it was: the list at address 100 and the
  entry at address 200 stay allocated for ever.
\<close>

theorem remove_socket_list_with_entry_detaches_list:
  "dev_remove_socket_list ex_D1 ex_mem1
     = Inr (ex_D1\<lparr>ml_priv := None\<rparr>,
            ex_mem1\<lparr>sk_lists := [100 \<mapsto> \<lparr>head_first = Some 200, remove_on_zero_entries = 1,
                                         entries = 1\<rparr>]\<rparr>)
   \<and> dev_unregister_socket ex_h (ex_D1\<lparr>ml_priv := None\<rparr>) raw_ingress 1
        (ex_mem1\<lparr>sk_lists := [100 \<mapsto> \<lparr>head_first = Some 200, remove_on_zero_entries = 1,
                                      entries = 1\<rparr>]\<rparr>)
     = Some (Inr (ex_D1\<lparr>ml_priv := None\<rparr>,
                  ex_mem1\<lparr>sk_lists := [100 \<mapsto> \<lparr>head_first = Some 200,
                                               remove_on_zero_entries = 1, entries = 1\<rparr>]\<rparr>))"
  by (simp add: dev_remove_socket_list_def dev_unregister_socket_def ex_h_def ex_D1_def
        ex_mem1_def ex_entry_def)

text \<open>
  C3 (fails on the code). D1 is of the ARINC-429 type and has a socket list, which is
  empty, so no entry matches (socket 1, raw_ingress); kmem_cache_alloc returns the object
  at address 200. dev_register_socket does not return success: the loop leaves \<open>sk_info\<close>
  NULL and hlist_add_head_rcu dereferences it. Nothing is inserted and nothing counted.
\<close>

theorem register_without_match_dereferences_null:
  "dev_register_socket ex_h (Some 200) ex_D1 raw_ingress 1 ex_mem0
     = Some (Inl Null_pointer_dereference)"
  by (simp add: dev_register_socket_def ex_h_def ex_D1_def ex_mem0_def
        hlist_for_each_entry_rcu_NULL hlist_add_head_rcu_def)

text \<open>
  C4 (fails on the code). D1's list holds the entry at address 200 for (socket 1,
  raw_ingress); a second registration of the same pair gets the new object at address 201
  from kmem_cache_alloc. The call returns 0 and the entry count stays 1, but the object it
  frees is the existing entry at 200, which stays linked as the head of the list, and the
  new object at 201 stays allocated.
\<close>

theorem register_duplicate_frees_existing_entry:
  "dev_register_socket ex_h (Some 201) ex_D1 raw_ingress 1 ex_mem1
     = Some (Inr (0,
         \<lparr>sk_lists = [100 \<mapsto> \<lparr>head_first = Some 200, remove_on_zero_entries = 0,
                                 entries = 1\<rparr>],
          sk_infos = [201 \<mapsto> \<lparr>node_next = None, node_pprev = None, info_sk = 1,
                                 ingress_func = raw_ingress\<rparr>]\<rparr>))"
  by (simp add: dev_register_socket_def ex_h_def ex_D1_def ex_mem1_def ex_entry_def
        hlist_for_each_entry_rcu_node kmem_cache_free_def)

subsection \<open>Send\<close>

text \<open>
  C6, as amended. A send whose payload length is not a multiple of 4 bytes fails with
  EINVAL before any device lookup, buffer allocation or transmit call: it makes no call to
  the host at all.
\<close>

theorem sendmsg_unaligned_fails_first:
  assumes "unat size' mod 4 \<noteq> 0"
  shows "proto_raw_sendmsg h env st psk msg size' = (- EINVAL, [])"
  using assms by (simp add: proto_raw_sendmsg_def ARINC429_WORD_SIZE_def)

theorem sendmsg_unaligned_fails_first_witness:
  "unat (6 :: 64 word) mod 4 \<noteq> 0
   \<and> proto_raw_sendmsg ex_h ex_env ex_st2 (ex_psk 1 1) ex_msg 6 = (- EINVAL, [])"
  using sendmsg_unaligned_fails_first [of 6 ex_h ex_env ex_st2 "ex_psk 1 1" ex_msg]
  by simp

text \<open>
  C6 as stated fails for the zero-length payload: 0 is a multiple of 4, so line 378 lets
  it through. On the device D1 (up, of the right type) the call looks the device up,
  allocates a buffer for the private header alone, hands it to the device and returns 0.
\<close>

theorem sendmsg_zero_length_is_sent:
  "proto_raw_sendmsg ex_h ex_env ex_st2 (ex_psk 1 1) ex_msg 0
     = (0, [Call_dev_get_by_index 0 1, Call_sock_alloc_send_skb 4, Call_memcpy_from_msg 0,
            Call_dev_queue_xmit \<lparr>skb_len = 0, skb_priv_ifindex = 1\<rparr>, Call_dev_put 1])
   \<and> fst (proto_raw_sendmsg ex_h ex_env ex_st2 (ex_psk 1 1) ex_msg 0) \<noteq> - EINVAL"
  by (simp add: proto_raw_sendmsg_def ex_h_def ex_D1_def ex_st2_def ex_psk_def ex_env_def
        ex_msg_def sendmsg_ifindex_def dev_get_by_index_def ARINC429_WORD_SIZE_def
        IFF_UP_def sizeof_arinc429_skb_priv_def memcpy_from_msg_def EINVAL_def)

text \<open>
  The length of the copy at line 443 is an int. A payload of at most 2^31 - 1 bytes is
  copied as it is; a payload of 2^31 bytes or more (and less than 2^32) arrives as a
  negative int, is converted to a size_t far beyond what the message holds, and the copy
  fails with -EFAULT.
\<close>

lemma sint_ucast_large:
  assumes "2 ^ 31 \<le> uint (w :: 64 word)" "uint w < 2 ^ 32"
  shows "sint (ucast w :: 32 word) = uint w - 2 ^ 32"
proof -
  have "sint (ucast w :: 32 word)
          = (uint w + 2 ^ (LENGTH(32) - 1)) mod 2 ^ LENGTH(32) - 2 ^ (LENGTH(32) - 1)"
    by (simp only: ucast_eq int_word_sint)
  also have "\<dots> = (uint w + 2 ^ 31) mod 2 ^ 32 - 2 ^ 31"
    by simp
  also have "(uint w + 2 ^ 31) mod 2 ^ 32 = uint w - 2 ^ 31"
  proof -
    have "(uint w + 2 ^ 31) mod 2 ^ 32 = ((uint w - 2 ^ 31) + 2 ^ 32) mod 2 ^ 32"
      by (simp add: add.commute)
    also have "\<dots> = (uint w - 2 ^ 31) mod 2 ^ 32"
      by (rule mod_add_self2)
    also have "\<dots> = uint w - 2 ^ 31"
      using assms by (intro mod_pos_pos_trivial) simp_all
    finally show ?thesis .
  qed
  finally show ?thesis by simp
qed

lemma uint_word_of_int_negative:
  assumes "- (2 ^ 31) \<le> k" "k < 0"
  shows "uint (word_of_int k :: 64 word) = k + 2 ^ 64"
proof -
  have "uint (word_of_int k :: 64 word) = k mod 2 ^ 64"
    by (simp add: uint_word_of_int)
  also have "\<dots> = (k + 2 ^ 64) mod 2 ^ 64"
    by simp
  also have "\<dots> = k + 2 ^ 64"
    using assms by (intro mod_pos_pos_trivial) simp_all
  finally show ?thesis .
qed

lemma copy_length_fits_int:
  assumes "unat (w :: 64 word) < 2 ^ 32"
    and "\<not> unat w < unat (word_of_int (sint (ucast w :: 32 word)) :: 64 word)"
  shows "unat w < 2 ^ 31"
proof (rule ccontr)
  assume n: "\<not> unat w < 2 ^ 31"
  have "int (2 ^ 31) \<le> int (unat w)"
    using n by (simp only: of_nat_le_iff not_less)
  then have lo: "2 ^ 31 \<le> uint w"
    by simp
  have "int (unat w) < int (2 ^ 32)"
    using assms(1) by (simp only: of_nat_less_iff)
  then have hi: "uint w < 2 ^ 32"
    by simp
  have s: "sint (ucast w :: 32 word) = uint w - 2 ^ 32"
    using lo hi by (rule sint_ucast_large)
  have "uint (word_of_int (uint w - 2 ^ 32) :: 64 word) = uint w - 2 ^ 32 + 2 ^ 64"
    using lo hi by (intro uint_word_of_int_negative) simp_all
  then have "uint w < uint (word_of_int (sint (ucast w :: 32 word)) :: 64 word)"
    using hi by (simp only: s) simp
  then have "w < (word_of_int (sint (ucast w :: 32 word)) :: 64 word)"
    by (simp only: word_less_def)
  then have "unat w < unat (word_of_int (sint (ucast w :: 32 word)) :: 64 word)"
    by (rule unat_mono)
  with assms(2) show False by simp
qed


lemma memcpy_from_msg_small:
  assumes "unat (w :: 64 word) < 2 ^ 31" and "msg_iter_count msg = w"
  shows "memcpy_from_msg env msg (sint (ucast w :: 32 word)) = memcpy_from_msg_ret env"
  using assms by (simp add: memcpy_from_msg_def sint_ucast_small)

lemma memcpy_from_msg_done_fits_int:
  assumes "unat (w :: 64 word) < 2 ^ 32" and "msg_iter_count msg = w"
    and "\<not> memcpy_from_msg env msg (sint (ucast w :: 32 word)) < 0"
  shows "unat w < 2 ^ 31"
proof (rule copy_length_fits_int [OF assms(1)])
  show "\<not> unat w < unat (word_of_int (sint (ucast w :: 32 word)) :: 64 word)"
    using assms(2,3) by (auto simp: memcpy_from_msg_def EFAULT_def split: if_splits)
qed

text \<open>
  C7. The target device resolves (from the message or from the socket), is of the
  ARINC-429 type and is up, the payload is word-aligned, and \<open>size\<close> is the number of
  bytes the message holds, as the socket layer passes it. If the payload is longer than
  the device's MTU the call fails with EMSGSIZE. If it is at most the MTU and the buffer
  is handed to the transmit path, which accepts it (dev_queue_xmit returns 0 or
  NET_XMIT_CN), the call returns exactly the payload length, never another count. And the
  buffer is handed over and the length returned whenever the payload is at most the MTU
  and at most 2^31 - 1 bytes, the host hands out a buffer, the copy succeeds and the
  transmit path accepts.
\<close>

theorem sendmsg_mtu_and_full_length:
  assumes "sendmsg_ifindex h psk msg = Inr idx"
    and "dev_get_by_index st (sk_net psk) idx = Some dev"
    and "dev_type dev = ARPHRD_ARINC429 h"
    and "dev_flags dev AND IFF_UP \<noteq> 0"
    and "unat size' mod 4 = 0"
    and "msg_iter_count msg = size'"
  shows "(unat (dev_mtu dev) < unat size' \<longrightarrow>
            fst (proto_raw_sendmsg h env st psk msg size') = - EMSGSIZE)
       \<and> (unat size' \<le> unat (dev_mtu dev) \<and>
          list_ex is_dev_queue_xmit (snd (proto_raw_sendmsg h env st psk msg size')) \<and>
          (dev_queue_xmit_ret env = 0 \<or> dev_queue_xmit_ret env = NET_XMIT_CN) \<longrightarrow>
            fst (proto_raw_sendmsg h env st psk msg size') = int (unat size'))
       \<and> (unat size' \<le> unat (dev_mtu dev) \<and> unat size' < 2 ^ 31 \<and>
          sock_alloc_send_skb_err env = None \<and> 0 \<le> memcpy_from_msg_ret env \<and>
          (dev_queue_xmit_ret env = 0 \<or> dev_queue_xmit_ret env = NET_XMIT_CN) \<longrightarrow>
            list_ex is_dev_queue_xmit (snd (proto_raw_sendmsg h env st psk msg size')) \<and>
            fst (proto_raw_sendmsg h env st psk msg size') = int (unat size'))"
proof (intro conjI impI)
  assume "unat (dev_mtu dev) < unat size'"
  with assms show "fst (proto_raw_sendmsg h env st psk msg size') = - EMSGSIZE"
    by (simp add: proto_raw_sendmsg_def Let_def ARINC429_WORD_SIZE_def)
next
  define c where "c = memcpy_from_msg env msg (sint (ucast size' :: 32 word))"
  assume a: "unat size' \<le> unat (dev_mtu dev) \<and>
    list_ex is_dev_queue_xmit (snd (proto_raw_sendmsg h env st psk msg size')) \<and>
    (dev_queue_xmit_ret env = 0 \<or> dev_queue_xmit_ret env = NET_XMIT_CN)"
  then have x: "(if 0 < dev_queue_xmit_ret env then net_xmit_errno (dev_queue_xmit_ret env)
                 else dev_queue_xmit_ret env) = 0"
    by (auto simp: net_xmit_errno_def NET_XMIT_CN_def)
  from a have le: "\<not> unat (dev_mtu dev) < unat size'" by simp
  have r: "proto_raw_sendmsg h env st psk msg size' =
      (case sock_alloc_send_skb_err env of
         Some err \<Rightarrow> (err, [Call_dev_get_by_index (sk_net psk) idx,
                           Call_sock_alloc_send_skb (size' + sizeof_arinc429_skb_priv),
                           Call_dev_put (dev_ifindex dev)])
       | None \<Rightarrow>
           if c < 0
           then (c, [Call_dev_get_by_index (sk_net psk) idx,
                     Call_sock_alloc_send_skb (size' + sizeof_arinc429_skb_priv),
                     Call_memcpy_from_msg size', Call_kfree_skb, Call_dev_put (dev_ifindex dev)])
           else (sint (ucast size' :: 32 word),
                 [Call_dev_get_by_index (sk_net psk) idx,
                  Call_sock_alloc_send_skb (size' + sizeof_arinc429_skb_priv),
                  Call_memcpy_from_msg size',
                  Call_dev_queue_xmit \<lparr>skb_len = ucast size', skb_priv_ifindex = dev_ifindex dev\<rparr>,
                  Call_dev_put (dev_ifindex dev)]))"
    unfolding proto_raw_sendmsg_def Let_def c_def
    using assms(1-5) le x
    by (simp add: ARINC429_WORD_SIZE_def split: option.split)
  from a have called: "list_ex is_dev_queue_xmit (snd (proto_raw_sendmsg h env st psk msg size'))"
    by simp
  have nc: "\<not> c < 0" and al: "sock_alloc_send_skb_err env = None"
    using called unfolding r by (auto split: option.splits if_splits)
  have "unat (dev_mtu dev) < 2 ^ 32"
    using unsigned_less [of "dev_mtu dev", where ?'a = nat] by simp
  with a have "unat size' < 2 ^ 32" by simp
  then have "unat size' < 2 ^ 31"
    using assms(6) nc unfolding c_def by (rule memcpy_from_msg_done_fits_int)
  then have "sint (ucast size' :: 32 word) = int (unat size')"
    by (rule sint_ucast_small)
  then show "fst (proto_raw_sendmsg h env st psk msg size') = int (unat size')"
    unfolding r using nc al by simp
next
  assume a: "unat size' \<le> unat (dev_mtu dev) \<and> unat size' < 2 ^ 31 \<and>
    sock_alloc_send_skb_err env = None \<and> 0 \<le> memcpy_from_msg_ret env \<and>
    (dev_queue_xmit_ret env = 0 \<or> dev_queue_xmit_ret env = NET_XMIT_CN)"
  then have x: "(if 0 < dev_queue_xmit_ret env then net_xmit_errno (dev_queue_xmit_ret env)
                 else dev_queue_xmit_ret env) = 0"
    by (auto simp: net_xmit_errno_def NET_XMIT_CN_def)
  have s: "sint (ucast size' :: 32 word) = int (unat size')"
    using a by (simp add: sint_ucast_small)
  have c: "memcpy_from_msg env msg (int (unat size')) = memcpy_from_msg_ret env"
    using a assms(6) memcpy_from_msg_small [of size' msg env] by (simp only: s)
  from a have le: "\<not> unat (dev_mtu dev) < unat size'" by simp
  from a have m: "\<not> memcpy_from_msg_ret env < 0" by simp
  from a have al: "sock_alloc_send_skb_err env = None" by simp
  have r: "proto_raw_sendmsg h env st psk msg size' =
      (int (unat size'),
       [Call_dev_get_by_index (sk_net psk) idx,
        Call_sock_alloc_send_skb (size' + sizeof_arinc429_skb_priv),
        Call_memcpy_from_msg size',
        Call_dev_queue_xmit \<lparr>skb_len = ucast size', skb_priv_ifindex = dev_ifindex dev\<rparr>,
        Call_dev_put (dev_ifindex dev)])"
    unfolding proto_raw_sendmsg_def Let_def
    using assms(1-5)
    by (simp only: x s c le m al ARINC429_WORD_SIZE_def if_False if_True sum.case option.case
          refl simp_thms)
  show "list_ex is_dev_queue_xmit (snd (proto_raw_sendmsg h env st psk msg size'))"
    unfolding r by simp
  show "fst (proto_raw_sendmsg h env st psk msg size') = int (unat size')"
    unfolding r by simp
qed

theorem sendmsg_mtu_and_full_length_witness:
  "fst (proto_raw_sendmsg ex_h ex_env ex_st2 (ex_psk 1 1) (ex_msg\<lparr>msg_iter_count := 36\<rparr>) 36)
     = - EMSGSIZE
   \<and> list_ex is_dev_queue_xmit
       (snd (proto_raw_sendmsg ex_h ex_env ex_st2 (ex_psk 1 1) (ex_msg\<lparr>msg_iter_count := 32\<rparr>) 32))
   \<and> fst (proto_raw_sendmsg ex_h ex_env ex_st2 (ex_psk 1 1) (ex_msg\<lparr>msg_iter_count := 32\<rparr>) 32)
       = 32"
  using sendmsg_mtu_and_full_length
          [of ex_h "ex_psk 1 1" "ex_msg\<lparr>msg_iter_count := 36\<rparr>" 1 ex_st2 ex_D1 36 ex_env]
    sendmsg_mtu_and_full_length
          [of ex_h "ex_psk 1 1" "ex_msg\<lparr>msg_iter_count := 32\<rparr>" 1 ex_st2 ex_D1 32 ex_env]
  by (simp add: ex_h_def ex_D1_def ex_st2_def ex_psk_def ex_env_def ex_msg_def
        sendmsg_ifindex_def dev_get_by_index_def IFF_UP_def)

text \<open>
  A payload of 2^31 bytes within the MTU never reaches the transmit path: the copy fails
  and the call returns -EFAULT.
\<close>

lemma sendmsg_length_beyond_int_copy_fails:
  "proto_raw_sendmsg ex_h ex_env (ex_st2\<lparr>devs := [ex_D1\<lparr>dev_mtu := 0xFFFFFFFF\<rparr>]\<rparr>)
       (ex_psk 1 1) (ex_msg\<lparr>msg_iter_count := 0x80000000\<rparr>) 0x80000000
     = (- EFAULT,
        [Call_dev_get_by_index 0 1, Call_sock_alloc_send_skb 0x80000004,
         Call_memcpy_from_msg 0x80000000, Call_kfree_skb, Call_dev_put 1])"
  by (simp add: proto_raw_sendmsg_def ex_h_def ex_D1_def ex_st2_def ex_psk_def ex_env_def
        ex_msg_def sendmsg_ifindex_def dev_get_by_index_def ARINC429_WORD_SIZE_def
        IFF_UP_def sizeof_arinc429_skb_priv_def memcpy_from_msg_def EFAULT_def)


subsection \<open>Bind\<close>




text \<open>
  C9. The address has the right length and a nonzero index, the socket is not already
  bound to that index, the index resolves to a device of the ARINC-429 type, registration
  returns 0, and the device is down. Then bind returns 0 and the socket is bound to the
  index; the down state shows only on the socket's error channel: \<open>sk_err\<close> is ENETDOWN
  and, unless the socket is dead, sk_error_report has been invoked once more.
\<close>

theorem bind_down_device_succeeds_and_reports:
  assumes "len = int (sizeof_sockaddr_arinc429 h)"
    and "arinc429_ifindex addr \<noteq> 0"
    and "socks st s = Some psk"
    and "\<not> (bound psk \<noteq> 0 \<and> arinc429_ifindex addr = psk_ifindex psk)"
    and "dev_get_by_index st (sk_net psk) (arinc429_ifindex addr) = Some dev"
    and "dev_type dev = ARPHRD_ARINC429 h"
    and "dev_register_socket h alloc dev raw_ingress s (mem st) = Some (Inr (0, m'))"
    and "dev_flags dev AND IFF_UP = 0"
  shows "proto_raw_bind h alloc s addr len st =
           Some (Inr (0, st\<lparr>mem := m',
                            socks := (socks st)(s \<mapsto>
                              psk\<lparr>psk_ifindex := arinc429_ifindex addr, bound := 1,
                                  sk_err := ENETDOWN,
                                  sk_error_reports :=
                                    (if sk_dead psk then sk_error_reports psk
                                     else sk_error_reports psk + 1)\<rparr>)\<rparr>))"
  using assms dev_get_by_index_ifindex [OF assms(5)]
  by (auto simp: proto_raw_bind_def Let_def)

theorem bind_down_device_succeeds_and_reports_witness:
  "proto_raw_bind ex_h (Some 211) 1 ex_addr2 8 (ex_st12\<lparr>devs := [ex_D1, ex_D2\<lparr>dev_flags := 0\<rparr>]\<rparr>)
     = Some (Inr (0, ex_st12\<lparr>devs := [ex_D1, ex_D2\<lparr>dev_flags := 0\<rparr>], mem := ex_mem12',
                            socks := [1 \<mapsto> (ex_psk 2 1)\<lparr>sk_err := ENETDOWN,
                                                           sk_error_reports := 1\<rparr>]\<rparr>))"
  using bind_down_device_succeeds_and_reports
          [of 8 ex_h ex_addr2 "ex_st12\<lparr>devs := [ex_D1, ex_D2\<lparr>dev_flags := 0\<rparr>]\<rparr>" 1 "ex_psk 1 1"
              "ex_D2\<lparr>dev_flags := 0\<rparr>" "Some 211" ex_mem12']
  by (simp add: dev_register_socket_def ex_h_def ex_D1_def ex_D2_def ex_st12_def
        ex_mem12_def ex_mem12'_def ex_entry_def ex_psk_def ex_addr2_def
        dev_get_by_index_def hlist_for_each_entry_rcu_node kmem_cache_free_def IFF_UP_def)

subsection \<open>Socket creation\<close>

text \<open>
  C10. A socket-creation request from a namespace other than the initial one fails with
  EAFNOSUPPORT whatever the protocol tag is, and allocates nothing: the state (the
  sockets) is as before and the socket object gets neither operations nor a sock, only
  its state field set to SS_UNCONNECTED (line 572).
\<close>

theorem sock_create_other_namespace_fails_first:
  assumes "net \<noteq> init_net"
  shows "arinc429_sock_create h alloc net sock protocol st
           = (- EAFNOSUPPORT, sock\<lparr>sock_state := SS_UNCONNECTED\<rparr>, st)"
  using assms by (simp add: arinc429_sock_create_def)

theorem sock_create_other_namespace_fails_first_witness:
  "(1 :: nat) \<noteq> init_net
   \<and> arinc429_sock_create ex_h (Some 5) 1
        \<lparr>sock_state = SS_FREE, sock_ops = None, sock_sk = None\<rparr> 77
        \<lparr>devs = [], mem = ex_mem0, socks = Map.empty\<rparr>
       = (- EAFNOSUPPORT, \<lparr>sock_state = SS_UNCONNECTED, sock_ops = None, sock_sk = None\<rparr>,
          \<lparr>devs = [], mem = ex_mem0, socks = Map.empty\<rparr>)"
  using sock_create_other_namespace_fails_first
          [of 1 ex_h "Some 5" "\<lparr>sock_state = SS_FREE, sock_ops = None, sock_sk = None\<rparr>" 77
              "\<lparr>devs = [], mem = ex_mem0, socks = Map.empty\<rparr>"]
  by (simp add: init_net_def)

end
